theory Spec2Isabelle
  imports Complex_Main
begin

section \<open>YahooSession: an OAuth2 session with a disk cache and a request delay\<close>

text \<open>
  A shallow embedding of \<^verbatim>\<open>src/yahoofantasysession.py\<close>. The class \<^verbatim>\<open>YahooSession\<close>
  becomes the record \<open>session\<close>; every method takes the session (and the files it
  touches) and returns the updated ones together with either an error or a result.
  An exception leaves the mutations made before it in place, so the state is returned
  on the error branch as well.
\<close>

subsection \<open>Values, files and errors\<close>

text \<open>
  The Python values that \<^verbatim>\<open>json.loads\<close> returns: \<^verbatim>\<open>None\<close>, booleans, integers,
  floats, strings, lists, and dictionaries with their items in the order of the file.
  The fields that the session reads from its files hold such values, of any of these
  types: the code never tests a type.
\<close>

datatype json =
    JNull | JBool bool | JInt int | JFloat real | JStr string
  | JList "json list" | JDict "(string \<times> json) list"

text \<open>
  What a file holds: the text \<^verbatim>\<open>json.dumps(v, indent=1)\<close> of a value, which
  \<^verbatim>\<open>json.loads\<close> reads back as \<open>v\<close>, or some other text, which \<^verbatim>\<open>json.loads\<close> rejects.
  The file system maps a path to the content of the file there.
\<close>

datatype file_content = Json json | NotJson string

type_synonym files = "string \<rightharpoonup> file_content"

datatype error =
    Exception string        \<comment> \<open>\<^verbatim>\<open>raise Exception(...)\<close>, line 85\<close>
  | AssertionError string   \<comment> \<open>a failed \<^verbatim>\<open>assert\<close>, with its message\<close>
  | KeyError string         \<comment> \<open>\<^verbatim>\<open>d[k]\<close> on a dictionary without \<open>k\<close>\<close>
  | TypeError               \<comment> \<open>\<^verbatim>\<open>v[k]\<close> with a string \<open>k\<close> on a value that is not a dictionary\<close>
  | ValueError string       \<comment> \<open>\<^verbatim>\<open>time.sleep\<close> with a negative duration\<close>
  | JSONDecodeError         \<comment> \<open>\<^verbatim>\<open>json.loads\<close> on text that is not JSON\<close>
  | HTTPError int           \<comment> \<open>\<^verbatim>\<open>raise_for_status\<close>, with the status\<close>
  | LibraryError string     \<comment> \<open>any exception of the HTTP or OAuth2 layer\<close>

text \<open>
  \<^verbatim>\<open>v[k]\<close> for a string \<open>k\<close>: the value under \<open>k\<close> of a dictionary, KeyError when the
  dictionary has no such key, TypeError when \<open>v\<close> is not a dictionary.
\<close>

definition subscript :: "json \<Rightarrow> string \<Rightarrow> error + json" where
  "subscript v k =
     (case v of
        JDict d \<Rightarrow> (case map_of d k of None \<Rightarrow> Inl (KeyError k) | Some x \<Rightarrow> Inr x)
      | _ \<Rightarrow> Inl TypeError)"

text \<open>\<^verbatim>\<open>json.loads(path.read_text())\<close> for a file that exists.\<close>

definition json_loads :: "file_content \<Rightarrow> error + json" where
  "json_loads c = (case c of Json v \<Rightarrow> Inr v | NotJson _ \<Rightarrow> Inl JSONDecodeError)"

subsection \<open>The session object\<close>

text \<open>
  The object that \<^verbatim>\<open>_load_session\<close> builds and stores in \<^verbatim>\<open>self.s\<close>: the arguments
  given to \<^verbatim>\<open>OAuth2Session\<close> and to the \<^verbatim>\<open>CacheControlAdapter\<close> mounted on
  \<^verbatim>\<open>https://\<close>. The token updater is the bound method \<^verbatim>\<open>self._auth_file_saver\<close>, a
  function from the new token to its effect on the files.
\<close>

record client =
  oauth_client_id :: json
  token :: json
  auto_refresh_url :: string
  auto_refresh_kwargs :: json
  token_updater :: "json \<Rightarrow> files \<Rightarrow> files"
  mount_prefix :: string
  cache_directory :: string
  cache_etags :: bool
  expires_after_hours :: int

record session =
  request_delay :: real
  cache_expire_hours :: int
  web_cache_dir :: string
  urls :: "string list"
  cached_urls :: "string \<rightharpoonup> string"
  credentials_file :: string
  auth_file :: string
  auth_base_url :: string
  access_token_url :: string
  client_id :: json
  client_secret :: json
  callback_url :: json
  auth_token_dict :: json
  session_s :: "client option"

text \<open>
  The keyword arguments of the constructor, typed as its docstring types them;
  \<open>None\<close> is a keyword that was not given (\<^verbatim>\<open>kwargs.get\<close> returns \<^verbatim>\<open>None\<close>).
\<close>

record kwargs =
  kw_request_delay :: "real option"
  kw_cache_expire_hours :: "int option"
  kw_web_cache_dir :: "string option"

text \<open>Python's truth value of \<^verbatim>\<open>kwargs.get(k)\<close>: \<^verbatim>\<open>None\<close>, zero and the empty string are false.\<close>

definition truthy_real :: "real option \<Rightarrow> bool" where
  "truthy_real v = (case v of None \<Rightarrow> False | Some d \<Rightarrow> d \<noteq> 0)"

definition truthy_int :: "int option \<Rightarrow> bool" where
  "truthy_int v = (case v of None \<Rightarrow> False | Some h \<Rightarrow> h \<noteq> 0)"

definition truthy_str :: "string option \<Rightarrow> bool" where
  "truthy_str v = (case v of None \<Rightarrow> False | Some d \<Rightarrow> d \<noteq> [])"

subsection \<open>Construction\<close>

text \<open>Lines 26 to 59 and 64 of \<^verbatim>\<open>__init__\<close>: the defaults, then the keywords that are true.\<close>

definition init_fields :: "kwargs \<Rightarrow> session" where
  "init_fields kw =
     \<lparr> request_delay =
         (if truthy_real (kw_request_delay kw) then the (kw_request_delay kw) else 0.1),
       cache_expire_hours =
         (if truthy_int (kw_cache_expire_hours kw) then the (kw_cache_expire_hours kw) else 168),
       web_cache_dir =
         (if truthy_str (kw_web_cache_dir kw) then the (kw_web_cache_dir kw)
          else ''.yahoo_web_cache''),
       urls = [],
       cached_urls = Map.empty,
       credentials_file = ''.yahoo_fantasy_credentials.json'',
       auth_file = ''.yahoo_fantasy_auth_token.json'',
       auth_base_url = ''https://api.login.yahoo.com/oauth2/request_auth'',
       access_token_url = ''https://api.login.yahoo.com/oauth2/get_token'',
       client_id = JStr [],
       client_secret = JStr [],
       callback_url = JStr ''oob'',
       auth_token_dict = JDict [],
       session_s = None \<rparr>"

text \<open>The dictionary that \<^verbatim>\<open>_load_credentials\<close> writes when there is no credentials file.\<close>

definition creds_template :: json where
  "creds_template =
     JDict [(''client_id'', JStr []), (''client_secret'', JStr []),
            (''callback_url'', JStr ''oob'')]"

definition creds_required_msg :: "string \<Rightarrow> string" where
  "creds_required_msg creds_path =
     ''Credentials file is required, '' @ creds_path @
     '' has been created, please modify it with your application credentials from https://developer.yahoo.com/apps/''"

definition creds_update_msg :: string where
  "creds_update_msg = ''Credentials file needs to be updated''"

text \<open>
  \<^verbatim>\<open>_load_credentials\<close>. Each field is assigned before its assertion, so a failed
  assertion leaves the assignment in the session that is returned with the error. The
  assertions compare with the empty string: in Python a value of another type is
  different from it.
\<close>

definition load_credentials :: "session \<Rightarrow> files \<Rightarrow> (error + unit) \<times> session \<times> files" where
  "load_credentials self fs =
     (let creds_path = credentials_file self in
      case fs creds_path of
        None \<Rightarrow>
          (Inl (Exception (creds_required_msg creds_path)), self,
           fs(creds_path \<mapsto> Json creds_template))
      | Some c \<Rightarrow>
          (case json_loads c of
             Inl e \<Rightarrow> (Inl e, self, fs)
           | Inr creds_dict \<Rightarrow>
               (case subscript creds_dict ''client_id'' of
                  Inl e \<Rightarrow> (Inl e, self, fs)
                | Inr cid \<Rightarrow>
                    let self1 = self\<lparr>client_id := cid\<rparr> in
                    if cid = JStr [] then (Inl (AssertionError creds_update_msg), self1, fs)
                    else
                      (case subscript creds_dict ''client_secret'' of
                         Inl e \<Rightarrow> (Inl e, self1, fs)
                       | Inr sec \<Rightarrow>
                           let self2 = self1\<lparr>client_secret := sec\<rparr> in
                           if sec = JStr [] then (Inl (AssertionError creds_update_msg), self2, fs)
                           else
                             (case subscript creds_dict ''callback_url'' of
                                Inl e \<Rightarrow> (Inl e, self2, fs)
                              | Inr cb \<Rightarrow> (Inr (), self2\<lparr>callback_url := cb\<rparr>, fs))))))"

text \<open>
  \<^verbatim>\<open>_load_authorization\<close>. \<^verbatim>\<open>_get_new_auth_token\<close> asks the operator for a code and
  exchanges it at the token endpoint; it is the parameter \<open>get_new_auth_token\<close>, which
  returns the token or the error of the exchange.
\<close>

definition load_authorization ::
  "(session \<Rightarrow> error + json) \<Rightarrow> session \<Rightarrow> files \<Rightarrow> (error + unit) \<times> session \<times> files" where
  "load_authorization get_new_auth_token self fs =
     (let auth_path = auth_file self in
      case (case fs auth_path of
              None \<Rightarrow>
                (case get_new_auth_token self of
                   Inl e \<Rightarrow> Inl e
                 | Inr token_dict \<Rightarrow> Inr (fs(auth_path \<mapsto> Json token_dict), Json token_dict))
            | Some c \<Rightarrow> Inr (fs, c)) of
        Inl e \<Rightarrow> (Inl e, self, fs)
      | Inr (fs1, c) \<Rightarrow>
          (case json_loads c of
             Inl e \<Rightarrow> (Inl e, self, fs1)
           | Inr d \<Rightarrow> (Inr (), self\<lparr>auth_token_dict := d\<rparr>, fs1)))"

text \<open>\<^verbatim>\<open>_auth_file_saver\<close>: the token is written to the authorization file.\<close>

definition auth_file_saver :: "session \<Rightarrow> json \<Rightarrow> files \<Rightarrow> files" where
  "auth_file_saver self token_dict fs = fs(auth_file self \<mapsto> Json token_dict)"

text \<open>\<^verbatim>\<open>_load_session\<close>.\<close>

definition load_session :: "session \<Rightarrow> session" where
  "load_session self =
     (let token_updater_args =
            JDict [(''client_id'', client_id self), (''client_secret'', client_secret self)]
      in self\<lparr>session_s := Some
           \<lparr> oauth_client_id = client_id self,
             token = auth_token_dict self,
             auto_refresh_url = access_token_url self,
             auto_refresh_kwargs = token_updater_args,
             token_updater = auth_file_saver self,
             mount_prefix = ''https://'',
             cache_directory = web_cache_dir self,
             cache_etags = False,
             expires_after_hours = cache_expire_hours self \<rparr>\<rparr>)"

text \<open>
  \<^verbatim>\<open>__init__\<close>: the fields, then the three loaders. An exception of a loader leaves the
  constructor, and no session object exists; the files written so far remain.
\<close>

definition YahooSession_init ::
  "(session \<Rightarrow> error + json) \<Rightarrow> kwargs \<Rightarrow> files \<Rightarrow> (error + session) \<times> files" where
  "YahooSession_init get_new_auth_token kw fs =
     (case load_credentials (init_fields kw) fs of
        (Inl e, self1, fs1) \<Rightarrow> (Inl e, fs1)
      | (Inr _, self1, fs1) \<Rightarrow>
          (case load_authorization get_new_auth_token self1 fs1 of
             (Inl e, self2, fs2) \<Rightarrow> (Inl e, fs2)
           | (Inr _, self2, fs2) \<Rightarrow> (Inr (load_session self2), fs2)))"

subsection \<open>Responses\<close>

text \<open>
  The attributes of a response that \<^verbatim>\<open>get\<close> reads. The headers are the pairs of
  name and value; \<^verbatim>\<open>from_cache\<close> is the flag that the caching adapter sets on every
  response it builds.
\<close>

record response =
  status_code :: int
  headers :: "(string \<times> string) list"
  resp_text :: string
  resp_url :: string
  from_cache :: bool

text \<open>
  \<^verbatim>\<open>r.headers.get(name)\<close>: the header dictionary of the HTTP library compares names
  without regard to case.
\<close>

definition lower_char :: "char \<Rightarrow> char" where
  "lower_char c =
     (case map_of (zip ''ABCDEFGHIJKLMNOPQRSTUVWXYZ'' ''abcdefghijklmnopqrstuvwxyz'') c of
        None \<Rightarrow> c
      | Some l \<Rightarrow> l)"

definition lower :: "string \<Rightarrow> string" where
  "lower cs = map lower_char cs"

definition headers_get :: "(string \<times> string) list \<Rightarrow> string \<Rightarrow> string option" where
  "headers_get hs name = map_of (map (\<lambda>(k, v). (lower k, v)) hs) (lower name)"

text \<open>
  \<^verbatim>\<open>r.raise_for_status()\<close> of the HTTP library: HTTPError for a client error (400 to
  499) or a server error (500 to 599), and nothing for any other status.
\<close>

definition raise_for_status :: "response \<Rightarrow> error + unit" where
  "raise_for_status r =
     (if 400 \<le> status_code r \<and> status_code r < 600 then Inl (HTTPError (status_code r))
      else Inr ())"

subsection \<open>The request\<close>

text \<open>
  The state that \<^verbatim>\<open>get\<close> works on: the session, the arguments of the calls of
  \<^verbatim>\<open>time.sleep\<close> made so far (oldest first), and the world behind \<^verbatim>\<open>self.s\<close>: the state
  of the OAuth2 session, the cache directory, the files and the network.
\<close>

record 'w state =
  sess :: session
  sleeps :: "real list"
  world :: 'w

text \<open>
  \<^verbatim>\<open>time.sleep(secs)\<close>: the call is logged with its argument; a negative duration
  raises ValueError, any other is slept.
\<close>

definition sleep :: "real \<Rightarrow> 'w state \<Rightarrow> (error + unit) \<times> 'w state" where
  "sleep secs st =
     (if secs < 0 then Inl (ValueError ''sleep length must be non-negative'') else Inr (),
      st\<lparr>sleeps := sleeps st @ [secs]\<rparr>)"

text \<open>What \<^verbatim>\<open>get\<close> returns: the response object, or its text.\<close>

datatype payload = Object response | Text string

definition body_of :: "payload \<Rightarrow> string" where
  "body_of p = (case p of Object r \<Rightarrow> resp_text r | Text t \<Rightarrow> t)"

text \<open>
  \<^verbatim>\<open>get\<close>. The bound method \<^verbatim>\<open>self.s.get\<close> is the parameter \<open>http\<close>: from a URL and the
  world it gives a response or the exception it raised, and the world after the call.
  \<^verbatim>\<open>FileCache.encode\<close> is the parameter \<open>encode\<close>. The \<^verbatim>\<open>assert\<close> statements are
  executed, as Python does unless it is started with \<^verbatim>\<open>-O\<close>.
\<close>

definition get ::
  "(string \<Rightarrow> 'w \<Rightarrow> (error + response) \<times> 'w) \<Rightarrow> (string \<Rightarrow> string) \<Rightarrow>
   string \<Rightarrow> bool \<Rightarrow> 'w state \<Rightarrow> (error + payload) \<times> 'w state" where
  "get http encode url return_object st =
     (case http url (world st) of
        (Inl e, w) \<Rightarrow> (Inl e, st\<lparr>world := w\<rparr>)
      | (Inr r, w) \<Rightarrow>
          let st1 = st\<lparr>world := w\<rparr> in
          if headers_get (headers r) ''etag'' \<noteq> None then (Inl (AssertionError []), st1)
          else
            let cached_url = encode url in
            case (if request_delay (sess st1) \<noteq> 0 \<and> \<not> from_cache r
                  then sleep (request_delay (sess st1)) st1
                  else (Inr (), st1)) of
              (Inl e, st2) \<Rightarrow> (Inl e, st2)
            | (Inr _, st2) \<Rightarrow>
                let st3 = (if \<not> from_cache r
                           then st2\<lparr>sess := (sess st2)
                                  \<lparr>cached_urls :=
                                     (cached_urls (sess st2))(cached_url \<mapsto> resp_url r)\<rparr>\<rparr>
                           else st2);
                    st4 = st3\<lparr>sess := (sess st3)\<lparr>urls := urls (sess st3) @ [resp_url r]\<rparr>\<rparr>
                in case raise_for_status r of
                     Inl e \<Rightarrow> (Inl e, st4)
                   | Inr _ \<Rightarrow>
                       (Inr (if return_object then Object r else Text (resp_text r)), st4))"

text \<open>
  Whether the delay of line 197 raises: it is executed with a negative
  \<^verbatim>\<open>request_delay\<close>, for a response that was not served from the cache.
\<close>

definition delay_raises :: "session \<Rightarrow> response \<Rightarrow> bool" where
  "delay_raises self r = (request_delay self < 0 \<and> \<not> from_cache r)"

text \<open>
  The state of line 202 written out: what \<^verbatim>\<open>get\<close> has done to the session, to the sleep
  log and to the world once a response \<open>r\<close> has passed line 190, the delay of line 197
  has not raised, and the URL is appended.
\<close>

definition after_response :: "response \<Rightarrow> string \<Rightarrow> 'w \<Rightarrow> 'w state \<Rightarrow> 'w state" where
  "after_response r key w st =
     \<lparr> sess = (sess st)
         \<lparr> urls := urls (sess st) @ [resp_url r],
           cached_urls := (if from_cache r then cached_urls (sess st)
                           else (cached_urls (sess st))(key \<mapsto> resp_url r)) \<rparr>,
       sleeps = sleeps st @
         (if request_delay (sess st) \<noteq> 0 \<and> \<not> from_cache r then [request_delay (sess st)]
          else []),
       world = w \<rparr>"

subsection \<open>Callers\<close>

text \<open>
  A caller that requests the URLs of a list one after the other and goes on after an
  exception, and the number of its requests whose response reaches line 196 without
  coming from the cache.
\<close>

fun get_all ::
  "(string \<Rightarrow> 'w \<Rightarrow> (error + response) \<times> 'w) \<Rightarrow> (string \<Rightarrow> string) \<Rightarrow>
   string list \<Rightarrow> 'w state \<Rightarrow> 'w state" where
  "get_all http encode [] st = st"
| "get_all http encode (url # rest) st =
     get_all http encode rest (snd (get http encode url False st))"

fun fetch_count ::
  "(string \<Rightarrow> 'w \<Rightarrow> (error + response) \<times> 'w) \<Rightarrow> string list \<Rightarrow> 'w \<Rightarrow> nat" where
  "fetch_count http [] w = 0"
| "fetch_count http (url # rest) w =
     (case http url w of
        (Inl e, w') \<Rightarrow> fetch_count http rest w'
      | (Inr r, w') \<Rightarrow>
          (if headers_get (headers r) ''etag'' = None \<and> \<not> from_cache r then 1 else 0) +
          fetch_count http rest w')"


subsection \<open>The HTTP layer of the specification\<close>

text \<open>
  Modelled from the spec: the HTTP layer behind \<^verbatim>\<open>self.s.get\<close>, that is the
  \<^verbatim>\<open>OAuth2Session\<close> of requests-oauthlib with the \<^verbatim>\<open>CacheControlAdapter\<close>,
  \<^verbatim>\<open>FileCache\<close> and \<^verbatim>\<open>ExpiresAfter\<close> of cachecontrol. The repository configures these
  libraries in \<^verbatim>\<open>_load_session\<close> and does not contain them. Sections 4.2 and 4.3 of the
  specification describe the layer: a disk cache keyed by an encoding of the URL; an entry
  of age below the configured expiry is returned without a network call; otherwise an
  authenticated network GET is made, its response stored in the cache and returned; a
  token whose expiry timestamp has passed is refreshed first, and the persist callback
  is invoked with the refreshed token before that token is used.

  The world of this layer: the files, the cache directory (for each key the time the entry
  was stored and the response), the token that the OAuth2 session holds, and a log with
  one entry for each use of a token on the network: the token, and the files as they were
  at that moment.
\<close>

record net =
  disk :: files
  web_cache :: "string \<rightharpoonup> real \<times> response"
  current_token :: json
  used :: "(json \<times> files) list"

text \<open>
  Modelled from the spec: the upstream service at a time in seconds: whether the expiry
  timestamp of a token has passed, what the token endpoint answers to a refresh, and
  what the resource endpoint answers to an authenticated GET.
\<close>

record upstream =
  expired :: "real \<Rightarrow> json \<Rightarrow> bool"
  refresh :: "real \<Rightarrow> json \<Rightarrow> error + json"
  fetch :: "real \<Rightarrow> json \<Rightarrow> string \<Rightarrow> error + response"

text \<open>Modelled from the spec: the cache entry when its age is below the configured expiry.\<close>

definition fresh_entry :: "client \<Rightarrow> real \<Rightarrow> (real \<times> response) option \<Rightarrow> response option" where
  "fresh_entry c now entry =
     (case entry of
        None \<Rightarrow> None
      | Some (stored, r) \<Rightarrow>
          if now - stored < 3600 * real_of_int (expires_after_hours c) then Some r else None)"

text \<open>
  Modelled from the spec: the refresh of an expired token, with the persist callback
  called on the refreshed token.
\<close>

definition authorize :: "upstream \<Rightarrow> client \<Rightarrow> real \<Rightarrow> net \<Rightarrow> error + net" where
  "authorize up c now w =
     (if expired up now (current_token w) then
        (case refresh up now (current_token w) of
           Inl e \<Rightarrow> Inl e
         | Inr tok \<Rightarrow> Inr (w\<lparr>current_token := tok, disk := token_updater c tok (disk w)\<rparr>))
      else Inr w)"

text \<open>Modelled from the spec: the authenticated network GET, stored in the cache.\<close>

definition network_get ::
  "upstream \<Rightarrow> (string \<Rightarrow> string) \<Rightarrow> client \<Rightarrow> real \<Rightarrow> string \<Rightarrow> net \<Rightarrow>
   (error + response) \<times> net" where
  "network_get up encode c now url w =
     (case authorize up c now w of
        Inl e \<Rightarrow> (Inl e, w)
      | Inr w1 \<Rightarrow>
          let w2 = w1\<lparr>used := used w1 @ [(current_token w1, disk w1)]\<rparr> in
          case fetch up now (current_token w1) url of
            Inl e \<Rightarrow> (Inl e, w2)
          | Inr r \<Rightarrow>
              let r1 = r\<lparr>from_cache := False\<rparr>
              in (Inr r1, w2\<lparr>web_cache := (web_cache w2)(encode url \<mapsto> (now, r1))\<rparr>))"

text \<open>Modelled from the spec: \<^verbatim>\<open>self.s.get(url)\<close> at the time \<open>now\<close>.\<close>

definition http_get ::
  "upstream \<Rightarrow> (string \<Rightarrow> string) \<Rightarrow> client \<Rightarrow> real \<Rightarrow> string \<Rightarrow> net \<Rightarrow>
   (error + response) \<times> net" where
  "http_get up encode c now url w =
     (case fresh_entry c now (web_cache w (encode url)) of
        Some r \<Rightarrow> (Inr (r\<lparr>from_cache := True\<rparr>), w)
      | None \<Rightarrow> network_get up encode c now url w)"

text \<open>
  Modelled from the spec: the world of the layer when the session has been built: the
  OAuth2 session holds the token it was constructed with, and nothing has been sent yet.
  The cache directory is as earlier runs left it.
\<close>

definition initial_net :: "client \<Rightarrow> files \<Rightarrow> (string \<rightharpoonup> real \<times> response) \<Rightarrow> net" where
  "initial_net c fs cache_dir =
     \<lparr> disk = fs, web_cache = cache_dir, current_token = token c, used = [] \<rparr>"

subsection \<open>Example inputs\<close>

definition default_kwargs :: kwargs where
  "default_kwargs =
     \<lparr>kw_request_delay = None, kw_cache_expire_hours = None, kw_web_cache_dir = None\<rparr>"

definition example_token :: json where
  "example_token =
     JDict [(''access_token'', JStr ''a1''), (''refresh_token'', JStr ''r1''),
            (''expires_at'', JFloat 1000)]"

definition example_files :: files where
  "example_files =
     [''.yahoo_fantasy_credentials.json'' \<mapsto>
        Json (JDict [(''client_id'', JStr ''id''), (''client_secret'', JStr ''secret''),
                     (''callback_url'', JStr ''oob'')]),
      ''.yahoo_fantasy_auth_token.json'' \<mapsto> Json example_token]"

definition empty_secret_files :: files where
  "empty_secret_files =
     [''.yahoo_fantasy_credentials.json'' \<mapsto>
        Json (JDict [(''client_id'', JStr ''id''), (''client_secret'', JStr []),
                     (''callback_url'', JStr ''oob'')])]"

text \<open>A credentials file with \<^verbatim>\<open>null\<close> for the identifier and \<^verbatim>\<open>0\<close> for the secret.\<close>

definition untyped_files :: files where
  "untyped_files =
     [''.yahoo_fantasy_credentials.json'' \<mapsto>
        Json (JDict [(''client_id'', JNull), (''client_secret'', JInt 0),
                     (''callback_url'', JStr ''oob'')])]"

text \<open>Whether a value is a string that is not empty.\<close>

definition nonempty_string :: "json \<Rightarrow> bool" where
  "nonempty_string v = (case v of JStr t \<Rightarrow> t \<noteq> [] | _ \<Rightarrow> False)"

definition no_operator :: "session \<Rightarrow> error + json" where
  "no_operator self = Inl (LibraryError ''no operator'')"

definition example_session :: session where
  "example_session =
     load_session ((init_fields default_kwargs)
       \<lparr> client_id := JStr ''id'', client_secret := JStr ''secret'',
         auth_token_dict := example_token \<rparr>)"

definition example_state :: "unit state" where
  "example_state = \<lparr> sess = example_session, sleeps = [], world = () \<rparr>"

text \<open>The session that the constructor builds for \<^verbatim>\<open>request_delay=-1\<close>.\<close>

definition negative_delay_kwargs :: kwargs where
  "negative_delay_kwargs =
     \<lparr>kw_request_delay = Some (- 1), kw_cache_expire_hours = None, kw_web_cache_dir = None\<rparr>"

definition negative_delay_session :: session where
  "negative_delay_session =
     load_session ((init_fields negative_delay_kwargs)
       \<lparr> client_id := JStr ''id'', client_secret := JStr ''secret'',
         auth_token_dict := example_token \<rparr>)"


definition example_url :: string where
  "example_url = ''https://fantasysports.yahooapis.com/fantasy/v2/game/nfl''"

definition example_encode :: "string \<Rightarrow> string" where
  "example_encode url = ''sha224:'' @ url"

definition example_response :: "int \<Rightarrow> (string \<times> string) list \<Rightarrow> bool \<Rightarrow> response" where
  "example_response status hs cached =
     \<lparr> status_code = status, headers = hs, resp_text = ''<game_id>449</game_id>'',
       resp_url = example_url, from_cache = cached \<rparr>"

definition constant_http :: "response \<Rightarrow> string \<Rightarrow> unit \<Rightarrow> (error + response) \<times> unit" where
  "constant_http r url w = (Inr r, w)"

definition example_client :: client where
  "example_client = the (session_s example_session)"

definition refreshed_token :: json where
  "refreshed_token =
     JDict [(''access_token'', JStr ''a2''), (''refresh_token'', JStr ''r1''),
            (''expires_at'', JFloat 9000)]"

text \<open>
  An upstream service for which the example token expires at second 1000, whose token
  endpoint answers with the refreshed token, and whose resource endpoint answers 200.
\<close>

definition example_upstream :: upstream where
  "example_upstream =
     \<lparr> expired = (\<lambda>now tok. tok = example_token \<and> 1000 \<le> now),
       refresh = (\<lambda>now tok. Inr refreshed_token),
       fetch = (\<lambda>now tok url. Inr (example_response 200 [] False)) \<rparr>"

definition example_net :: net where
  "example_net = initial_net example_client example_files Map.empty"

definition example_net_state :: "net state" where
  "example_net_state = \<lparr> sess = example_session, sleeps = [], world = example_net \<rparr>"

section \<open>Construction and credentials\<close>

lemma load_credentials_config:
  assumes "load_credentials self fs = (res, self', fs')"
  shows "request_delay self' = request_delay self \<and>
         cache_expire_hours self' = cache_expire_hours self \<and>
         web_cache_dir self' = web_cache_dir self"
  using assms
  by (auto simp: load_credentials_def Let_def split: option.splits sum.splits if_splits)

lemma load_authorization_config:
  assumes "load_authorization tok self fs = (res, self', fs')"
  shows "request_delay self' = request_delay self \<and>
         cache_expire_hours self' = cache_expire_hours self \<and>
         web_cache_dir self' = web_cache_dir self"
  using assms
  by (auto simp: load_authorization_def Let_def
      split: option.splits sum.splits if_splits prod.splits)

lemma load_session_config:
  "request_delay (load_session self) = request_delay self \<and>
   cache_expire_hours (load_session self) = cache_expire_hours self \<and>
   web_cache_dir (load_session self) = web_cache_dir self"
  by (simp add: load_session_def)

lemma init_config:
  assumes "YahooSession_init tok kw fs = (Inr self, fs')"
  shows "request_delay self = request_delay (init_fields kw) \<and>
         cache_expire_hours self = cache_expire_hours (init_fields kw) \<and>
         web_cache_dir self = web_cache_dir (init_fields kw)"
proof -
  obtain r1 s1 f1 where l1: "load_credentials (init_fields kw) fs = (r1, s1, f1)"
    by (metis prod_cases3)
  obtain r2 s2 f2 where l2: "load_authorization tok s1 f1 = (r2, s2, f2)"
    by (metis prod_cases3)
  from assms l1 l2 have "self = load_session s2"
    by (auto simp: YahooSession_init_def split: sum.splits)
  with load_credentials_config [OF l1] load_authorization_config [OF l2]
    load_session_config [of s2]
  show ?thesis by simp
qed

lemma example_init:
  "\<exists>self fs'. YahooSession_init no_operator
      \<lparr>kw_request_delay = Some 0, kw_cache_expire_hours = Some 0, kw_web_cache_dir = Some []\<rparr>
      example_files = (Inr self, fs')"
  by (simp add: YahooSession_init_def load_credentials_def load_authorization_def
      init_fields_def example_files_def json_loads_def subscript_def Let_def)

lemma example_session_constructed:
  "YahooSession_init no_operator default_kwargs example_files = (Inr example_session, example_files)"
  by (simp add: YahooSession_init_def load_credentials_def load_authorization_def
      init_fields_def example_files_def json_loads_def subscript_def Let_def
      example_session_def load_session_def default_kwargs_def auth_file_saver_def)

text \<open>
  C9. A construction option that is false in Python overrides nothing: when the
  constructor succeeds, a keyword that is absent, zero or the empty string leaves the
  default in the session (0.1 seconds, 168 hours, \<^verbatim>\<open>.yahoo_web_cache\<close>), and only a
  keyword with a true value replaces it.
\<close>

theorem falsy_options_keep_defaults:
  assumes "YahooSession_init tok kw fs = (Inr self, fs')"
  shows "(kw_request_delay kw = None \<or> kw_request_delay kw = Some 0
            \<longrightarrow> request_delay self = 0.1) \<and>
         (kw_cache_expire_hours kw = None \<or> kw_cache_expire_hours kw = Some 0
            \<longrightarrow> cache_expire_hours self = 168) \<and>
         (kw_web_cache_dir kw = None \<or> kw_web_cache_dir kw = Some []
            \<longrightarrow> web_cache_dir self = ''.yahoo_web_cache'') \<and>
         (\<forall>d. kw_request_delay kw = Some d \<and> d \<noteq> 0 \<longrightarrow> request_delay self = d) \<and>
         (\<forall>h. kw_cache_expire_hours kw = Some h \<and> h \<noteq> 0 \<longrightarrow> cache_expire_hours self = h) \<and>
         (\<forall>p. kw_web_cache_dir kw = Some p \<and> p \<noteq> [] \<longrightarrow> web_cache_dir self = p)"
  using init_config [OF assms]
  by (auto simp: init_fields_def truthy_real_def truthy_int_def truthy_str_def)

text \<open>
  C9, at an input: the constructor called with \<^verbatim>\<open>request_delay=0\<close>,
  \<^verbatim>\<open>cache_expire_hours=0\<close> and \<^verbatim>\<open>web_cache_dir=""\<close> on files that hold credentials and a
  token succeeds, and the session has the three defaults.
\<close>

theorem falsy_options_keep_defaults_witness:
  "\<exists>self fs'. YahooSession_init no_operator
      \<lparr>kw_request_delay = Some 0, kw_cache_expire_hours = Some 0, kw_web_cache_dir = Some []\<rparr>
      example_files = (Inr self, fs') \<and>
     request_delay self = 0.1 \<and> cache_expire_hours self = 168 \<and>
     web_cache_dir self = ''.yahoo_web_cache''"
proof -
  obtain self fs' where h: "YahooSession_init no_operator
      \<lparr>kw_request_delay = Some 0, kw_cache_expire_hours = Some 0, kw_web_cache_dir = Some []\<rparr>
      example_files = (Inr self, fs')"
    using example_init by blast
  from falsy_options_keep_defaults [OF h] h show ?thesis by simp
qed

text \<open>
  C3. When the credentials file is absent, \<^verbatim>\<open>_load_credentials\<close> writes the template (a
  dictionary with empty \<^verbatim>\<open>client_id\<close> and \<^verbatim>\<open>client_secret\<close>) at the path of the
  credentials file and raises the exception of line 85, which the specification calls
  ConfigurationError; the session is unchanged. The constructor then fails with the same
  exception, whatever the options and the operator: no session object is built, and the
  only change of the files is the template.
\<close>

theorem missing_credentials_file:
  assumes "fs (credentials_file self) = None"
  shows "load_credentials self fs =
           (Inl (Exception (creds_required_msg (credentials_file self))), self,
            fs(credentials_file self \<mapsto> Json creds_template)) \<and>
         subscript creds_template ''client_id'' = Inr (JStr []) \<and>
         subscript creds_template ''client_secret'' = Inr (JStr []) \<and>
         (self = init_fields kw \<longrightarrow>
            YahooSession_init tok kw fs =
              (Inl (Exception (creds_required_msg ''.yahoo_fantasy_credentials.json'')),
               fs(''.yahoo_fantasy_credentials.json'' \<mapsto> Json creds_template)))"
proof -
  have a: "load_credentials self fs =
           (Inl (Exception (creds_required_msg (credentials_file self))), self,
            fs(credentials_file self \<mapsto> Json creds_template))"
    using assms by (simp add: load_credentials_def Let_def)
  have b: "subscript creds_template ''client_id'' = Inr (JStr [])"
    "subscript creds_template ''client_secret'' = Inr (JStr [])"
    by (simp_all add: subscript_def creds_template_def)
  have c: "credentials_file (init_fields kw) = ''.yahoo_fantasy_credentials.json''"
    by (simp add: init_fields_def)
  have "self = init_fields kw \<Longrightarrow>
            YahooSession_init tok kw fs =
              (Inl (Exception (creds_required_msg ''.yahoo_fantasy_credentials.json'')),
               fs(''.yahoo_fantasy_credentials.json'' \<mapsto> Json creds_template))"
    using a c by (simp add: YahooSession_init_def)
  with a b show ?thesis by blast
qed

text \<open>
  C3, at an input: on an empty directory the loader and the constructor with default
  options fail with the exception, and the directory then holds the template.
\<close>

theorem missing_credentials_file_witness:
  "load_credentials (init_fields default_kwargs) Map.empty =
     (Inl (Exception (creds_required_msg ''.yahoo_fantasy_credentials.json'')),
      init_fields default_kwargs,
      [''.yahoo_fantasy_credentials.json'' \<mapsto> Json creds_template]) \<and>
   YahooSession_init no_operator default_kwargs Map.empty =
     (Inl (Exception (creds_required_msg ''.yahoo_fantasy_credentials.json'')),
      [''.yahoo_fantasy_credentials.json'' \<mapsto> Json creds_template])"
proof -
  have h: "(Map.empty :: files) (credentials_file (init_fields default_kwargs)) = None"
    by simp
  have c: "credentials_file (init_fields default_kwargs) = ''.yahoo_fantasy_credentials.json''"
    by (simp add: init_fields_def)
  from missing_credentials_file [OF h, where kw = default_kwargs and tok = no_operator] c
  show ?thesis by simp
qed

lemma load_credentials_ok:
  assumes "load_credentials self fs = (Inr u, self', fs')"
  shows "client_id self' \<noteq> JStr [] \<and> client_secret self' \<noteq> JStr []"
  using assms
  by (auto simp: load_credentials_def Let_def split: option.splits sum.splits if_splits)

lemma load_authorization_creds:
  assumes "load_authorization tok self fs = (res, self', fs')"
  shows "client_id self' = client_id self \<and> client_secret self' = client_secret self"
  using assms
  by (auto simp: load_authorization_def Let_def
      split: option.splits sum.splits if_splits prod.splits)

lemma init_ok_creds:
  assumes "YahooSession_init tok kw fs = (Inr self, fs')"
  shows "client_id self \<noteq> JStr [] \<and> client_secret self \<noteq> JStr []"
proof -
  obtain r1 s1 f1 where l1: "load_credentials (init_fields kw) fs = (r1, s1, f1)"
    by (metis prod_cases3)
  obtain r2 s2 f2 where l2: "load_authorization tok s1 f1 = (r2, s2, f2)"
    by (metis prod_cases3)
  from assms l1 l2 have s: "self = load_session s2" and r1: "r1 = Inr ()"
    by (auto simp: YahooSession_init_def split: sum.splits)
  from l1 r1 have "client_id s1 \<noteq> JStr [] \<and> client_secret s1 \<noteq> JStr []"
    using load_credentials_ok by blast
  with load_authorization_creds [OF l2] s show ?thesis
    by (simp add: load_session_def)
qed

lemma load_credentials_empty:
  assumes "fs (credentials_file self) = Some (Json (JDict d))"
    and "map_of d ''client_id'' = Some (JStr []) \<or> map_of d ''client_secret'' = Some (JStr [])"
  shows "\<exists>e self1. load_credentials self fs = (Inl e, self1, fs) \<and>
           (map_of d ''client_id'' \<noteq> None \<longrightarrow> e = AssertionError creds_update_msg)"
  using assms
  by (auto simp: load_credentials_def json_loads_def subscript_def Let_def
      split: option.splits)

lemma example_load:
  "load_credentials (init_fields default_kwargs) example_files =
     (Inr (), (init_fields default_kwargs)
        \<lparr>client_id := JStr ''id'', client_secret := JStr ''secret'',
          callback_url := JStr ''oob''\<rparr>,
      example_files)"
  by (simp add: load_credentials_def init_fields_def example_files_def json_loads_def
      subscript_def Let_def default_kwargs_def)

text \<open>
  C6, as stated, fails: a successful load does not make \<^verbatim>\<open>client_id\<close> and
  \<^verbatim>\<open>client_secret\<close> non-empty strings. The assertions of lines 93 and 96 only compare
  with the empty string; a credentials file with \<^verbatim>\<open>null\<close> for the identifier and \<^verbatim>\<open>0\<close>
  for the secret is loaded without an error, and neither field of the session is a string.
\<close>

theorem credentials_counterexample:
  "fst (load_credentials (init_fields default_kwargs) untyped_files) = Inr () \<and>
   \<not> nonempty_string
       (client_id (fst (snd (load_credentials (init_fields default_kwargs) untyped_files)))) \<and>
   \<not> nonempty_string
       (client_secret (fst (snd (load_credentials (init_fields default_kwargs) untyped_files))))"
  by (simp add: load_credentials_def init_fields_def untyped_files_def json_loads_def
      subscript_def Let_def nonempty_string_def)

text \<open>
  C6, amended. After a successful load of the credentials, and so in every session that
  the constructor returns, neither \<^verbatim>\<open>client_id\<close> nor \<^verbatim>\<open>client_secret\<close> is the empty
  string (a value that is not a string passes the check). When the file gives the empty
  string for either of them, the load fails (with the AssertionError of line 93 or 96
  whenever the file has a \<^verbatim>\<open>client_id\<close>), the files are unchanged, and the constructor
  fails with the same error whatever the operator would do: the token exchange, the first
  use of the credentials, is not reached.
\<close>

theorem credentials_nonempty:
  "(load_credentials self fs = (Inr u, self', fs') \<longrightarrow>
      client_id self' \<noteq> JStr [] \<and> client_secret self' \<noteq> JStr []) \<and>
   (YahooSession_init tok kw fs = (Inr self2, fs2) \<longrightarrow>
      client_id self2 \<noteq> JStr [] \<and> client_secret self2 \<noteq> JStr []) \<and>
   (fs (credentials_file self) = Some (Json (JDict d)) \<and>
    (map_of d ''client_id'' = Some (JStr []) \<or> map_of d ''client_secret'' = Some (JStr []))
    \<longrightarrow>
      (\<exists>e self1. load_credentials self fs = (Inl e, self1, fs) \<and>
         (map_of d ''client_id'' \<noteq> None \<longrightarrow> e = AssertionError creds_update_msg) \<and>
         (self = init_fields kw \<longrightarrow> (\<forall>t. YahooSession_init t kw fs = (Inl e, fs)))))"
proof (intro conjI impI)
  assume "load_credentials self fs = (Inr u, self', fs')"
  then show "client_id self' \<noteq> JStr []" "client_secret self' \<noteq> JStr []"
    using load_credentials_ok by blast+
next
  assume "YahooSession_init tok kw fs = (Inr self2, fs2)"
  then show "client_id self2 \<noteq> JStr []" "client_secret self2 \<noteq> JStr []"
    using init_ok_creds by blast+
next
  assume a: "fs (credentials_file self) = Some (Json (JDict d)) \<and>
    (map_of d ''client_id'' = Some (JStr []) \<or> map_of d ''client_secret'' = Some (JStr []))"
  then obtain e self1 where l: "load_credentials self fs = (Inl e, self1, fs)"
    and e: "map_of d ''client_id'' \<noteq> None \<longrightarrow> e = AssertionError creds_update_msg"
    using load_credentials_empty by blast
  have "self = init_fields kw \<longrightarrow> (\<forall>t. YahooSession_init t kw fs = (Inl e, fs))"
    using l by (auto simp: YahooSession_init_def)
  with l e show "\<exists>e self1. load_credentials self fs = (Inl e, self1, fs) \<and>
         (map_of d ''client_id'' \<noteq> None \<longrightarrow> e = AssertionError creds_update_msg) \<and>
         (self = init_fields kw \<longrightarrow> (\<forall>t. YahooSession_init t kw fs = (Inl e, fs)))"
    by blast
qed

text \<open>
  C6, amended, at two inputs: the load of a file with an identifier and a secret succeeds
  with a session in which neither is the empty string, and the constructor on a file whose
  \<^verbatim>\<open>client_secret\<close> is the empty string fails with the AssertionError for every operator.
\<close>

theorem credentials_nonempty_witness:
  "(\<exists>self'. load_credentials (init_fields default_kwargs) example_files =
        (Inr (), self', example_files) \<and>
      client_id self' \<noteq> JStr [] \<and> client_secret self' \<noteq> JStr []) \<and>
   (\<forall>t. YahooSession_init t default_kwargs empty_secret_files =
      (Inl (AssertionError creds_update_msg), empty_secret_files))"
proof -
  let ?d = "[(''client_id'', JStr ''id''), (''client_secret'', JStr []),
             (''callback_url'', JStr ''oob'')]"
  let ?s = "(init_fields default_kwargs)
        \<lparr>client_id := JStr ''id'', client_secret := JStr ''secret'',
          callback_url := JStr ''oob''\<rparr>"
  have f: "empty_secret_files (credentials_file (init_fields default_kwargs)) =
      Some (Json (JDict ?d))"
    by (simp add: empty_secret_files_def init_fields_def)
  have m: "map_of ?d ''client_id'' = Some (JStr []) \<or> map_of ?d ''client_secret'' = Some (JStr [])"
    by simp
  have n: "map_of ?d ''client_id'' \<noteq> None" by simp
  from credentials_nonempty [where self = "init_fields default_kwargs"
      and fs = example_files and u = "()" and fs' = example_files and self' = ?s]
  have "client_id ?s \<noteq> JStr [] \<and> client_secret ?s \<noteq> JStr []"
    using example_load by blast
  with example_load
  have 1: "\<exists>self'. load_credentials (init_fields default_kwargs) example_files =
        (Inr (), self', example_files) \<and>
      client_id self' \<noteq> JStr [] \<and> client_secret self' \<noteq> JStr []"
    by blast
  from credentials_nonempty [where self = "init_fields default_kwargs"
      and fs = empty_secret_files and kw = default_kwargs and d = ?d] f m n
  have 2: "\<forall>t. YahooSession_init t default_kwargs empty_secret_files =
      (Inl (AssertionError creds_update_msg), empty_secret_files)"
    by blast
  from 1 2 show ?thesis by blast
qed

section \<open>The request\<close>

subsection \<open>The three ways \<^verbatim>\<open>get\<close> ends\<close>

lemma lower_etag: "lower ''etag'' = ''etag''"
  by (simp add: lower_def lower_char_def)

lemma headers_get_None_iff:
  "headers_get hs name = None \<longleftrightarrow> (\<forall>(k, v) \<in> set hs. lower k \<noteq> lower name)"
  by (force simp: headers_get_def map_of_eq_None_iff)

lemma headers_get_Some:
  assumes "(k, v) \<in> set hs" and "lower k = lower name"
  shows "headers_get hs name \<noteq> None"
  using assms headers_get_None_iff by fastforce

lemma get_error:
  "http url (world st) = (Inl e, w) \<Longrightarrow> get http encode url ro st = (Inl e, st\<lparr>world := w\<rparr>)"
  by (simp add: get_def)

lemma get_etag:
  "http url (world st) = (Inr r, w) \<Longrightarrow> headers_get (headers r) ''etag'' \<noteq> None \<Longrightarrow>
   get http encode url ro st = (Inl (AssertionError []), st\<lparr>world := w\<rparr>)"
  by (simp add: get_def)

lemma get_delay_raises:
  "http url (world st) = (Inr r, w) \<Longrightarrow> headers_get (headers r) ''etag'' = None \<Longrightarrow>
   delay_raises (sess st) r \<Longrightarrow>
   get http encode url ro st =
     (Inl (ValueError ''sleep length must be non-negative''),
      st\<lparr>world := w, sleeps := sleeps st @ [request_delay (sess st)]\<rparr>)"
  by (simp add: get_def delay_raises_def sleep_def Let_def)

lemma get_no_etag:
  "http url (world st) = (Inr r, w) \<Longrightarrow> headers_get (headers r) ''etag'' = None \<Longrightarrow>
   \<not> delay_raises (sess st) r \<Longrightarrow>
   get http encode url ro st =
     (if 400 \<le> status_code r \<and> status_code r < 600 then Inl (HTTPError (status_code r))
      else Inr (if ro then Object r else Text (resp_text r)),
      after_response r (encode url) w st)"
  by (auto simp: get_def after_response_def raise_for_status_def delay_raises_def sleep_def
      Let_def)

lemma get_request_delay:
  "request_delay (sess (snd (get http encode url ro st))) = request_delay (sess st)"
  by (auto simp: get_def Let_def raise_for_status_def sleep_def split: prod.splits sum.splits)

lemma get_world:
  "world (snd (get http encode url ro st)) = snd (http url (world st))"
  by (auto simp: get_def Let_def raise_for_status_def sleep_def split: prod.splits sum.splits)

lemma get_sleeps:
  "sleeps (snd (get http encode url ro st)) =
     sleeps st @
       (case http url (world st) of
          (Inl e, w) \<Rightarrow> []
        | (Inr r, w) \<Rightarrow>
            if headers_get (headers r) ''etag'' = None \<and> \<not> from_cache r \<and>
               request_delay (sess st) \<noteq> 0
            then [request_delay (sess st)] else [])"
  by (auto simp: get_def Let_def raise_for_status_def sleep_def split: prod.splits sum.splits)

lemma example_delay: "request_delay (sess example_state) = 0.1"
  by (simp add: example_state_def example_session_def load_session_def init_fields_def
      default_kwargs_def truthy_real_def)



lemma negative_delay_session_constructed:
  "YahooSession_init no_operator negative_delay_kwargs example_files =
     (Inr negative_delay_session, example_files)"
  by (simp add: YahooSession_init_def load_credentials_def load_authorization_def
      init_fields_def example_files_def json_loads_def subscript_def Let_def
      negative_delay_session_def load_session_def negative_delay_kwargs_def
      auth_file_saver_def truthy_real_def)


subsection \<open>The ETag assertion\<close>

text \<open>
  C4. When the response of the HTTP layer carries an ETag header (a header whose name is
  \<^verbatim>\<open>etag\<close> in any case), \<^verbatim>\<open>get\<close> ends with the AssertionError of line 190, for every
  status and both values of \<^verbatim>\<open>return_object\<close>: no response and no text is returned, and
  neither the session nor the sleep log has changed.
\<close>

theorem etag_fails_fast:
  assumes "http url (world st) = (Inr r, w)"
    and "(k, v) \<in> set (headers r)" and "lower k = ''etag''"
  shows "get http encode url return_object st = (Inl (AssertionError []), st\<lparr>world := w\<rparr>)"
proof -
  have "headers_get (headers r) ''etag'' \<noteq> None"
    using assms(2,3) headers_get_Some [of k v "headers r" "''etag''"] by (simp add: lower_etag)
  with assms(1) show ?thesis by (rule get_etag)
qed

text \<open>
  C4, at an input: a response with status 200 and the header \<^verbatim>\<open>ETag\<close> makes
  \<^verbatim>\<open>get(url, return_object=True)\<close> fail with the AssertionError and leaves the state as
  it was.
\<close>

theorem etag_fails_fast_witness:
  "get (constant_http (example_response 200 [(''Content-Type'', ''application/json''),
      (''ETag'', ''W/33a64df5'')] False)) example_encode example_url True example_state =
   (Inl (AssertionError []), example_state)"
proof -
  let ?r = "example_response 200 [(''Content-Type'', ''application/json''),
      (''ETag'', ''W/33a64df5'')] False"
  have h: "constant_http ?r example_url (world example_state) = (Inr ?r, ())"
    by (simp add: constant_http_def)
  have m: "(''ETag'', ''W/33a64df5'') \<in> set (headers ?r)"
    by (simp add: example_response_def)
  have l: "lower ''ETag'' = ''etag''"
    by (simp add: lower_def lower_char_def)
  from etag_fails_fast [where http = "constant_http ?r" and url = example_url
      and st = example_state and encode = example_encode and return_object = True, OF h m l]
  show ?thesis by simp
qed

subsection \<open>The request log\<close>




subsection \<open>The delay\<close>

lemma get_all_slept:
  "sum_list (sleeps (get_all http encode us st)) =
     sum_list (sleeps st) + real (fetch_count http us (world st)) * request_delay (sess st)"
proof (induction us arbitrary: st)
  case Nil
  show ?case by simp
next
  case (Cons u us)
  let ?st1 = "snd (get http encode u False st)"
  have "sum_list (sleeps (get_all http encode (u # us) st)) =
     sum_list (sleeps ?st1) + real (fetch_count http us (world ?st1)) * request_delay (sess ?st1)"
    using Cons.IH [of ?st1] by simp
  also have "\<dots> = sum_list (sleeps st) +
      real (fetch_count http (u # us) (world st)) * request_delay (sess st)"
    by (cases "http u (world st)")
      (auto simp: get_sleeps get_world get_request_delay algebra_simps split: sum.splits)
  finally show ?case .
qed

text \<open>
  C2, as stated, fails: the delay is not executed in every call in which
  \<^verbatim>\<open>request_delay\<close> is not zero and the response did not come from the cache. With a
  delay of 0.1 seconds, a response that was not served from the cache and carries an ETag
  header ends the call at line 190, before line 197: nothing is slept.
\<close>

theorem delay_counterexample:
  "request_delay (sess example_state) \<noteq> 0 \<and>
   \<not> from_cache (example_response 200 [(''ETag'', ''W/33a64df5'')] False) \<and>
   sleeps (snd (get (constant_http (example_response 200 [(''ETag'', ''W/33a64df5'')] False))
      example_encode example_url False example_state)) = sleeps example_state"
  by (simp add: example_delay)
    (simp add: get_def constant_http_def example_response_def headers_get_def lower_def
      lower_char_def)

text \<open>
  C2, amended. In a call of \<^verbatim>\<open>get\<close> whose response carries no ETag header,
  \<^verbatim>\<open>sleep(request_delay)\<close> is executed once if \<^verbatim>\<open>request_delay\<close> is not zero and the
  response was not served from the cache, and not at all otherwise. Hence the time slept
  in a sequence of calls is the delay times the number of calls whose response had no ETag
  header and did not come from the cache: \<open>N\<close> such calls sleep \<open>N\<close> times the delay, so
  that they take at least that long; calls served from the cache add nothing, and nothing
  is slept when \<^verbatim>\<open>request_delay\<close> is zero.
\<close>

theorem delay_iff_fetched:
  "(http url (world st) = (Inr r, w) \<and> headers_get (headers r) ''etag'' = None \<longrightarrow>
      sleeps (snd (get http encode url return_object st)) =
        sleeps st @ (if request_delay (sess st) \<noteq> 0 \<and> \<not> from_cache r
                     then [request_delay (sess st)] else [])) \<and>
   sum_list (sleeps (get_all http encode us st)) =
     sum_list (sleeps st) + real (fetch_count http us (world st)) * request_delay (sess st)"
  by (simp add: get_all_slept get_sleeps)

text \<open>
  C2, amended, at inputs: with the default delay a response from the network is followed
  by one sleep of 0.1 seconds and a response from the cache by none; with a delay of zero
  nothing is slept; three requests answered by the network sleep 0.3 seconds.
\<close>

theorem delay_iff_fetched_witness:
  "sleeps (snd (get (constant_http (example_response 200 [] False)) example_encode example_url
      False example_state)) = [0.1] \<and>
   sleeps (snd (get (constant_http (example_response 200 [] True)) example_encode example_url
      False example_state)) = [] \<and>
   sleeps (snd (get (constant_http (example_response 200 [] False)) example_encode example_url
      False (example_state\<lparr>sess := example_session\<lparr>request_delay := 0\<rparr>\<rparr>))) = [] \<and>
   sum_list (sleeps (get_all (constant_http (example_response 200 [] False)) example_encode
      [example_url, example_url, example_url] example_state)) = 3 * 0.1"
proof -
  let ?h = "\<lambda>c. constant_http (example_response 200 [] c)"
  have n: "headers_get (headers (example_response 200 [] c)) ''etag'' = None" for c
    by (simp add: example_response_def headers_get_def)
  have c: "from_cache (example_response 200 [] c) = c" for c
    by (simp add: example_response_def)
  have h: "?h c example_url (world st) = (Inr (example_response 200 [] c), ())" for c st
    by (simp add: constant_http_def)
  have s: "sleeps example_state = []"
    by (simp add: example_state_def)
  have f: "fetch_count (?h False) [example_url, example_url, example_url]
      (world example_state) = 3"
    by (simp add: constant_http_def n c)
  from delay_iff_fetched [of "?h False" example_url example_state
      "example_response 200 [] False" "()" example_encode False "[]"] h n c s example_delay
  have 1: "sleeps (snd (get (?h False) example_encode example_url False example_state)) = [0.1]"
    by simp
  from delay_iff_fetched [of "?h True" example_url example_state
      "example_response 200 [] True" "()" example_encode False "[]"] h n c s
  have 2: "sleeps (snd (get (?h True) example_encode example_url False example_state)) = []"
    by simp
  from delay_iff_fetched [of "?h False" example_url
      "example_state\<lparr>sess := example_session\<lparr>request_delay := 0\<rparr>\<rparr>"
      "example_response 200 [] False" "()" example_encode False "[]"] h n c s
  have 3: "sleeps (snd (get (?h False) example_encode example_url False
      (example_state\<lparr>sess := example_session\<lparr>request_delay := 0\<rparr>\<rparr>))) = []"
    by simp
  from delay_iff_fetched [of "?h False" example_url example_state
      "example_response 200 [] False" "()" example_encode False
      "[example_url, example_url, example_url]"] f s example_delay
  have 4: "sum_list (sleeps (get_all (?h False) example_encode
      [example_url, example_url, example_url] example_state)) = 3 * 0.1"
    by simp
  from 1 2 3 4 show ?thesis by blast
qed

subsection \<open>The HTTP status\<close>








section \<open>The cache and the token file\<close>

lemma get_success:
  assumes "get http encode url ro st = (Inr p, st')"
  shows "\<exists>r w. http url (world st) = (Inr r, w) \<and> headers_get (headers r) ''etag'' = None \<and>
           \<not> delay_raises (sess st) r \<and>
           \<not> (400 \<le> status_code r \<and> status_code r < 600) \<and>
           p = (if ro then Object r else Text (resp_text r)) \<and>
           st' = after_response r (encode url) w st"
proof (cases "http url (world st)")
  case (Pair res w)
  show ?thesis
  proof (cases res)
    case (Inl e)
    with Pair assms show ?thesis by (simp add: get_error)
  next
    case (Inr r)
    show ?thesis
    proof (cases "headers_get (headers r) ''etag'' = None")
      case True
      show ?thesis
      proof (cases "delay_raises (sess st) r")
        case True
        with \<open>headers_get (headers r) ''etag'' = None\<close> Pair Inr assms show ?thesis
          by (simp add: get_delay_raises)
      next
        case False
        with \<open>headers_get (headers r) ''etag'' = None\<close> Pair Inr assms show ?thesis
          by (auto simp: get_no_etag split: if_splits)
      qed
    next
      case False
      with Pair Inr assms show ?thesis by (simp add: get_etag)
    qed
  qed
qed

lemma http_get_hit:
  assumes "web_cache w (encode url) = Some (stored, r)"
    and "now - stored < 3600 * real_of_int (expires_after_hours c)"
  shows "http_get up encode c now url w = (Inr (r\<lparr>from_cache := True\<rparr>), w)"
  using assms by (simp add: http_get_def fresh_entry_def)

lemma http_get_success:
  assumes "http_get up encode c now url w = (Inr r, w')"
  shows "\<exists>stored r0. web_cache w' (encode url) = Some (stored, r0) \<and>
           headers r0 = headers r \<and> status_code r0 = status_code r \<and>
           resp_text r0 = resp_text r \<and>
           (fresh_entry c now (web_cache w (encode url)) = None \<longrightarrow> stored = now)"
proof (cases "fresh_entry c now (web_cache w (encode url))")
  case None
  with assms have "network_get up encode c now url w = (Inr r, w')"
    by (simp add: http_get_def)
  then have "web_cache w' (encode url) = Some (now, r)"
    by (auto simp: network_get_def Let_def split: sum.splits)
  then show ?thesis by blast
next
  case (Some r0)
  with assms have r: "r = r0\<lparr>from_cache := True\<rparr>" and w: "w' = w"
    by (simp_all add: http_get_def)
  from Some obtain stored where "web_cache w (encode url) = Some (stored, r0)"
    by (auto simp: fresh_entry_def split: option.splits if_splits)
  with r w Some show ?thesis by simp
qed

text \<open>
  C1, against the HTTP layer of the specification. When a first \<^verbatim>\<open>get(url)\<close> succeeds,
  the cache holds an entry for the URL, stored at the time of that call if the call had to
  go to the network, and every later \<^verbatim>\<open>get(url)\<close> within the expiry window of that
  entry (its age below \<^verbatim>\<open>cache_expire_hours\<close> hours) succeeds with the body of the first
  call and, as a response object, with \<^verbatim>\<open>from_cache\<close> true; it sleeps nothing and leaves
  the world of the HTTP layer as it was.
\<close>

theorem cached_within_window:
  assumes "session_s (sess st) = Some c"
    and "expires_after_hours c = cache_expire_hours (sess st)"
    and "get (http_get up encode c t1) encode url ro1 st = (Inr p1, st1)"
  shows "\<exists>stored r. web_cache (world st1) (encode url) = Some (stored, r) \<and>
           (fresh_entry c t1 (web_cache (world st) (encode url)) = None \<longrightarrow> stored = t1) \<and>
           (\<forall>t2 ro2. t2 - stored < 3600 * real_of_int (cache_expire_hours (sess st)) \<longrightarrow>
              (\<exists>p2 st2. get (http_get up encode c t2) encode url ro2 st1 = (Inr p2, st2) \<and>
                 body_of p2 = body_of p1 \<and>
                 (ro2 \<longrightarrow> (\<exists>r2. p2 = Object r2 \<and> from_cache r2)) \<and>
                 sleeps st2 = sleeps st1 \<and> world st2 = world st1))"
proof -
  from get_success [OF assms(3)] obtain r1 w1 where
    h: "http_get up encode c t1 url (world st) = (Inr r1, w1)"
    and e: "headers_get (headers r1) ''etag'' = None"
    and s: "\<not> (400 \<le> status_code r1 \<and> status_code r1 < 600)"
    and p: "p1 = (if ro1 then Object r1 else Text (resp_text r1))"
    and st1: "st1 = after_response r1 (encode url) w1 st"
    by blast
  from http_get_success [OF h] obtain stored r0 where
    c: "web_cache w1 (encode url) = Some (stored, r0)"
    and r0: "headers r0 = headers r1" "status_code r0 = status_code r1"
      "resp_text r0 = resp_text r1"
    and f: "fresh_entry c t1 (web_cache (world st) (encode url)) = None \<longrightarrow> stored = t1"
    by auto
  have w: "world st1 = w1" using st1 by (simp add: after_response_def)
  have b: "body_of p1 = resp_text r1" using p by (simp add: body_of_def)
  have second: "\<exists>p2 st2. get (http_get up encode c t2) encode url ro2 st1 = (Inr p2, st2) \<and>
                 body_of p2 = body_of p1 \<and>
                 (ro2 \<longrightarrow> (\<exists>r2. p2 = Object r2 \<and> from_cache r2)) \<and>
                 sleeps st2 = sleeps st1 \<and> world st2 = world st1"
    if t: "t2 - stored < 3600 * real_of_int (cache_expire_hours (sess st))" for t2 ro2
  proof -
    let ?r2 = "r0\<lparr>from_cache := True\<rparr>"
    have "http_get up encode c t2 url (world st1) = (Inr ?r2, world st1)"
      using c w t assms(2) by (simp add: http_get_hit)
    moreover have "headers_get (headers ?r2) ''etag'' = None"
      using e r0 by simp
    moreover have "\<not> delay_raises (sess st1) ?r2"
      by (simp add: delay_raises_def)
    ultimately have "get (http_get up encode c t2) encode url ro2 st1 =
       (if 400 \<le> status_code ?r2 \<and> status_code ?r2 < 600 then Inl (HTTPError (status_code ?r2))
        else Inr (if ro2 then Object ?r2 else Text (resp_text ?r2)),
        after_response ?r2 (encode url) (world st1) st1)"
      by (rule get_no_etag)
    with s r0 b show ?thesis
      by (simp add: after_response_def body_of_def)
  qed
  have "web_cache (world st1) (encode url) = Some (stored, r0) \<and>
           (fresh_entry c t1 (web_cache (world st) (encode url)) = None \<longrightarrow> stored = t1) \<and>
           (\<forall>t2 ro2. t2 - stored < 3600 * real_of_int (cache_expire_hours (sess st)) \<longrightarrow>
              (\<exists>p2 st2. get (http_get up encode c t2) encode url ro2 st1 = (Inr p2, st2) \<and>
                 body_of p2 = body_of p1 \<and>
                 (ro2 \<longrightarrow> (\<exists>r2. p2 = Object r2 \<and> from_cache r2)) \<and>
                 sleeps st2 = sleeps st1 \<and> world st2 = world st1))"
    using c f w second by simp
  then show ?thesis by (intro exI)
qed

lemma get_sess_fixed:
  "auth_file (sess (snd (get http encode url ro st))) = auth_file (sess st) \<and>
   session_s (sess (snd (get http encode url ro st))) = session_s (sess st)"
  by (auto simp: get_def Let_def raise_for_status_def sleep_def split: prod.splits sum.splits)

lemma auth_file_saver_cong:
  "auth_file self' = auth_file self \<Longrightarrow> auth_file_saver self' = auth_file_saver self"
  by (auto simp: auth_file_saver_def fun_eq_iff)

lemma http_get_token:
  assumes "token_updater c = auth_file_saver self"
    and "disk w (auth_file self) = Some (Json (current_token w))"
  shows "disk (snd (http_get up encode c now url w)) (auth_file self) =
           Some (Json (current_token (snd (http_get up encode c now url w)))) \<and>
         (\<forall>(tok, files_then) \<in> set (drop (length (used w))
              (used (snd (http_get up encode c now url w)))).
            files_then (auth_file self) = Some (Json tok)) \<and>
         (fresh_entry c now (web_cache w (encode url)) = None \<and>
          expired up now (current_token w) \<and> refresh up now (current_token w) = Inr tok'
          \<longrightarrow> current_token (snd (http_get up encode c now url w)) = tok' \<and>
              used (snd (http_get up encode c now url w)) =
                used w @ [(tok', (disk w)(auth_file self \<mapsto> Json tok'))])"
  using assms
  by (auto simp: http_get_def network_get_def authorize_def auth_file_saver_def Let_def
      split: option.splits sum.splits)

text \<open>
  C7, against the HTTP layer of the specification. Let the token file hold the token of
  the OAuth2 session before a call of \<^verbatim>\<open>get\<close>, and let the token updater of the session
  be \<^verbatim>\<open>_auth_file_saver\<close>, as \<^verbatim>\<open>_load_session\<close> sets it. Then at every use of a token on the
  network during the call the token file holds that very token, and it holds the token of
  the OAuth2 session after the call. When the call refreshes the token, the refreshed
  token is the one used, and it is used with the token file already rewritten. The
  conditions hold again after the call.
\<close>

theorem refreshed_token_persisted:
  assumes "session_s (sess st) = Some c"
    and "token_updater c = auth_file_saver (sess st)"
    and "disk (world st) (auth_file (sess st)) = Some (Json (current_token (world st)))"
    and "get (http_get up encode c now) encode url return_object st = (res, st')"
  shows "disk (world st') (auth_file (sess st')) = Some (Json (current_token (world st'))) \<and>
         (\<forall>(tok, files_then) \<in> set (drop (length (used (world st))) (used (world st'))).
            files_then (auth_file (sess st)) = Some (Json tok)) \<and>
         (fresh_entry c now (web_cache (world st) (encode url)) = None \<and>
          expired up now (current_token (world st)) \<and>
          refresh up now (current_token (world st)) = Inr tok'
          \<longrightarrow> current_token (world st') = tok' \<and>
              used (world st') =
                used (world st) @ [(tok', (disk (world st))(auth_file (sess st) \<mapsto> Json tok'))]) \<and>
         session_s (sess st') = Some c \<and> token_updater c = auth_file_saver (sess st')"
proof -
  have st': "st' = snd (get (http_get up encode c now) encode url return_object st)"
    using assms(4) by simp
  have w: "world st' = snd (http_get up encode c now url (world st))"
    unfolding st' by (rule get_world)
  have a: "auth_file (sess st') = auth_file (sess st)"
    and s: "session_s (sess st') = session_s (sess st)"
    unfolding st' using get_sess_fixed by blast+
  from a have "auth_file_saver (sess st') = auth_file_saver (sess st)"
    by (rule auth_file_saver_cong)
  with http_get_token [OF assms(2,3), of up encode now url tok'] w a s assms(1,2)
  show ?thesis by simp
qed

lemma init_wires_token_updater:
  assumes "YahooSession_init tok kw fs = (Inr self, fs')"
  shows "\<exists>c. session_s self = Some c \<and> token_updater c = auth_file_saver self \<and>
           fs' (auth_file self) = Some (Json (token c)) \<and>
           expires_after_hours c = cache_expire_hours self"
proof -
  obtain r1 s1 f1 where l1: "load_credentials (init_fields kw) fs = (r1, s1, f1)"
    by (metis prod_cases3)
  obtain r2 s2 f2 where l2: "load_authorization tok s1 f1 = (r2, s2, f2)"
    by (metis prod_cases3)
  from assms l1 l2 have s: "self = load_session s2" and f: "fs' = f2" and r2: "r2 = Inr ()"
    by (auto simp: YahooSession_init_def split: sum.splits)
  from l2 r2 have "f2 (auth_file s2) = Some (Json (auth_token_dict s2))"
    by (auto simp: load_authorization_def json_loads_def Let_def
        split: option.splits sum.splits file_content.splits)
  with s f show ?thesis
    by (simp add: load_session_def auth_file_saver_def fun_eq_iff)
qed

lemma init_establishes_token_conditions:
  assumes "YahooSession_init tok kw fs = (Inr self, fs')"
  shows "\<exists>c. session_s self = Some c \<and> token_updater c = auth_file_saver self \<and>
           disk (initial_net c fs' cache_dir) (auth_file self) =
             Some (Json (current_token (initial_net c fs' cache_dir)))"
  using init_wires_token_updater [OF assms] by (auto simp: initial_net_def)

lemma example_net_eq:
  "example_net =
     \<lparr> disk = example_files, web_cache = Map.empty, current_token = example_token, used = [] \<rparr>"
  by (simp add: example_net_def initial_net_def example_client_def example_session_def
      load_session_def)

lemma example_client_wired:
  "session_s (sess example_net_state) = Some example_client"
  "token_updater example_client = auth_file_saver (sess example_net_state)"
  "expires_after_hours example_client = cache_expire_hours (sess example_net_state)"
  "cache_expire_hours (sess example_net_state) = 168"
  "auth_file (sess example_net_state) = ''.yahoo_fantasy_auth_token.json''"
  by (simp_all add: example_net_state_def example_client_def example_session_def
      load_session_def auth_file_saver_def fun_eq_iff init_fields_def default_kwargs_def
      truthy_int_def)

lemma example_first_get:
  "get (http_get example_upstream example_encode example_client 0) example_encode example_url
     False example_net_state =
   (Inr (Text ''<game_id>449</game_id>''),
    after_response (example_response 200 [] False) (example_encode example_url)
      (example_net\<lparr> used := [(example_token, example_files)],
         web_cache := [example_encode example_url \<mapsto> (0, example_response 200 [] False)] \<rparr>)
      example_net_state)"
proof -
  have "http_get example_upstream example_encode example_client 0 example_url
      (world example_net_state) =
    (Inr (example_response 200 [] False),
     example_net\<lparr> used := [(example_token, example_files)],
         web_cache := [example_encode example_url \<mapsto> (0, example_response 200 [] False)] \<rparr>)"
    by (simp add: http_get_def fresh_entry_def network_get_def authorize_def Let_def
        example_net_state_def example_net_eq example_upstream_def example_response_def)
  moreover have "headers_get (headers (example_response 200 [] False)) ''etag'' = None"
    by (simp add: example_response_def headers_get_def)
  moreover have "\<not> delay_raises (sess example_net_state) (example_response 200 [] False)"
    by (simp add: delay_raises_def example_net_state_def example_session_def load_session_def
        init_fields_def default_kwargs_def truthy_real_def)
  ultimately show ?thesis
    by (simp add: get_no_etag example_response_def)
qed

text \<open>
  C1, at an input: with the default window of 168 hours and an empty cache, a request at
  second 0 is answered by the network, and the same request 167 hours later returns a
  response object from the cache with the same body.
\<close>

theorem cached_within_window_witness:
  "\<exists>p2 st2.
     get (http_get example_upstream example_encode example_client (167 * 3600)) example_encode
       example_url True
       (snd (get (http_get example_upstream example_encode example_client 0) example_encode
          example_url False example_net_state)) = (Inr p2, st2) \<and>
     body_of p2 = ''<game_id>449</game_id>'' \<and> (\<exists>r2. p2 = Object r2 \<and> from_cache r2)"
proof -
  let ?st1 = "after_response (example_response 200 [] False) (example_encode example_url)
      (example_net\<lparr> used := [(example_token, example_files)],
         web_cache := [example_encode example_url \<mapsto> (0, example_response 200 [] False)] \<rparr>)
      example_net_state"
  have m: "fresh_entry example_client 0
      (web_cache (world example_net_state) (example_encode example_url)) = None"
    by (simp add: fresh_entry_def example_net_state_def example_net_eq)
  from cached_within_window [OF example_client_wired(1) example_client_wired(3)
      example_first_get] m
  obtain r where
    a: "\<forall>t2 ro2. t2 - 0 < 3600 * real_of_int (cache_expire_hours (sess example_net_state)) \<longrightarrow>
       (\<exists>p2 st2. get (http_get example_upstream example_encode example_client t2)
            example_encode example_url ro2 ?st1 = (Inr p2, st2) \<and>
          body_of p2 = body_of (Text ''<game_id>449</game_id>'') \<and>
          (ro2 \<longrightarrow> (\<exists>r2. p2 = Object r2 \<and> from_cache r2)) \<and>
          sleeps st2 = sleeps ?st1 \<and> world st2 = world ?st1)"
    by auto
  have w: "167 * 3600 - 0 < 3600 * real_of_int (cache_expire_hours (sess example_net_state))"
    by (simp add: example_client_wired(4))
  from a [rule_format, of "167 * 3600" True, OF w]
  have "\<exists>p2 st2. get (http_get example_upstream example_encode example_client (167 * 3600))
            example_encode example_url True ?st1 = (Inr p2, st2) \<and>
          body_of p2 = body_of (Text ''<game_id>449</game_id>'') \<and>
          (\<exists>r2. p2 = Object r2 \<and> from_cache r2)"
    by auto
  then show ?thesis
    by (simp add: example_first_get body_of_def)
qed

text \<open>
  C7, at an input: a request at second 2000, when the token of the session has expired,
  uses the refreshed token once, with the token file holding the refreshed token at that
  moment and after the call.
\<close>

theorem refreshed_token_persisted_witness:
  "used (world (snd (get (http_get example_upstream example_encode example_client 2000)
      example_encode example_url False example_net_state))) =
     [(refreshed_token,
       example_files(''.yahoo_fantasy_auth_token.json'' \<mapsto> Json refreshed_token))] \<and>
   disk (world (snd (get (http_get example_upstream example_encode example_client 2000)
      example_encode example_url False example_net_state)))
     ''.yahoo_fantasy_auth_token.json'' = Some (Json refreshed_token)"
proof -
  let ?g = "get (http_get example_upstream example_encode example_client 2000)
      example_encode example_url False example_net_state"
  have i: "disk (world example_net_state) (auth_file (sess example_net_state)) =
      Some (Json (current_token (world example_net_state)))"
    by (simp add: example_client_wired(5))
      (simp add: example_net_state_def example_net_eq example_files_def)
  have g: "?g = (fst ?g, snd ?g)" by simp
  have c: "fresh_entry example_client 2000
      (web_cache (world example_net_state) (example_encode example_url)) = None"
    "expired example_upstream 2000 (current_token (world example_net_state))"
    "refresh example_upstream 2000 (current_token (world example_net_state)) =
      Inr refreshed_token"
    "used (world example_net_state) = []"
    "disk (world example_net_state) = example_files"
    by (simp_all add: fresh_entry_def example_net_state_def example_net_eq
        example_upstream_def)
  from refreshed_token_persisted [OF example_client_wired(1) example_client_wired(2) i g,
      of refreshed_token] c
  have "disk (world (snd ?g)) (auth_file (sess (snd ?g))) =
          Some (Json (current_token (world (snd ?g))))"
    and "current_token (world (snd ?g)) = refreshed_token"
    and "used (world (snd ?g)) =
       [(refreshed_token, example_files(auth_file (sess example_net_state) \<mapsto>
          Json refreshed_token))]"
    by simp_all
  moreover have "auth_file (sess (snd ?g)) = ''.yahoo_fantasy_auth_token.json''"
    using get_sess_fixed [of "http_get example_upstream example_encode example_client 2000"
        example_encode example_url False example_net_state]
    by (simp add: example_client_wired(5))
  ultimately show ?thesis
    by (simp add: example_client_wired(5))
qed

end
